theory Spec2Isabelle
  imports Complex_Main
begin

section \<open>The annotator's measurement model (sci_viz_tool.py)\<close>

text \<open>
  The development embeds the point registry of \<open>AnnotatorApp\<close> and its method
  \<open>compute_metrics\<close>, together with the two methods that write the registry
  (\<open>on_canvas_click\<close>, \<open>clear_marks\<close>).

  Conventions of the embedding:
  \<^item> a Python \<open>float\<close> is read as the real number it denotes. Heights are differences
    of pixel rows of one image, far below \<open>2^53\<close>, so \<open>float(base_y - y_top)\<close> is
    exact in the source as well. The quotients of the metrics are idealised (no
    rounding, and hence no infinity and no NaN). The quotient that
    \<open>canvas_to_image_xy\<close> truncates to a pixel index is rounded to a double first, as
    the source does, because truncation turns its last bit into a whole pixel;
  \<^item> float division raises \<open>ZeroDivisionError\<close> on a zero divisor, a missing dictionary
    key raises \<open>KeyError\<close>: both are values of \<open>py_error\<close>, and a function that may
    raise returns \<open>py_error + 'a\<close>;
  \<^item> Python's \<open>None\<close> is \<open>None\<close> of an option type.
\<close>

subsection \<open>Errors and arithmetic of the host language\<close>

datatype py_error = KeyError | ZeroDivisionError

definition and_then :: "py_error + 'a \<Rightarrow> ('a \<Rightarrow> py_error + 'b) \<Rightarrow> py_error + 'b" where
  "and_then r f = (case r of Inl e \<Rightarrow> Inl e | Inr x \<Rightarrow> f x)"

definition py_float :: "int \<Rightarrow> real" where
  "py_float i = of_int i"

definition py_truediv :: "real \<Rightarrow> real \<Rightarrow> py_error + real" where
  "py_truediv a b = (if b = 0 then Inl ZeroDivisionError else Inr (a / b))"

text \<open>\<open>int(x)\<close> of a float truncates towards zero.\<close>

definition py_int :: "real \<Rightarrow> int" where
  "py_int r = (if 0 \<le> r then \<lfloor>r\<rfloor> else \<lceil>r\<rceil>)"

text \<open>
  Rounding of a real to the nearest integer, ties to the even one, and rounding of a
  real to the nearest double (53 significant bits, ties to even), which is what an
  IEEE division returns for the exact quotient. Overflow and subnormal results are
  not modelled: the quotients rounded here are canvas positions over display scales.
\<close>

definition round_half_even :: "real \<Rightarrow> int" where
  "round_half_even x =
     (let f = \<lfloor>x\<rfloor>; d = x - of_int f
      in if d < 1 / 2 then f else if 1 / 2 < d then f + 1 else if even f then f else f + 1)"

definition double_round :: "real \<Rightarrow> real" where
  "double_round r =
     (if r = 0 then 0
      else let u = 2 powr (of_int \<lfloor>log 2 \<bar>r\<bar>\<rfloor> - 52)
           in sgn r * of_int (round_half_even (\<bar>r\<bar> / u)) * u)"

subsection \<open>Data\<close>

text \<open>The dataclass \<open>Point\<close>: a name, the image coordinate, three canvas item ids.\<close>

record Point =
  name :: string
  xy :: "(int \<times> int) option"
  line_id :: "int option"
  dot_id :: "int option"
  label_id :: "int option"

text \<open>
  The fields of \<open>AnnotatorApp\<close> that the modelled methods read or write. Of the working
  image only its size \<open>(w, h)\<close> is kept; of the Tk canvas only the id that the next
  created item receives (Tk numbers canvas items consecutively).
\<close>

record AnnotatorApp =
  image :: "(int \<times> int) option"
  display_scale :: "real \<times> real"
  points :: "string \<rightharpoonup> Point"
  axis_value :: real
  current_mode :: "string option"
  overlay_items :: "int list"
  canvas_next :: int

text \<open>The dictionary returned by \<open>compute_metrics\<close>: its keys are fixed literals.\<close>

record metrics =
  height_Baseline_y :: "real option"
  height_Control_px :: "real option"
  height_A_px :: "real option"
  height_B_px :: "real option"
  height_Axis_px :: "real option"
  axis_auto_used :: bool
  A_as_pct_of_B :: "real option"
  B_as_pct_of_A :: "real option"
  delta_A_vs_B_pct :: "real option"
  delta_B_vs_A_pct :: "real option"
  A_as_pct_of_Control :: "real option"
  Control_as_pct_of_A :: "real option"
  delta_A_vs_Control_pct :: "real option"
  delta_Control_vs_A_pct :: "real option"
  B_as_pct_of_Control :: "real option"
  Control_as_pct_of_B :: "real option"
  delta_B_vs_Control_pct :: "real option"
  delta_Control_vs_B_pct :: "real option"
  BaseNorm_Control :: "real option"
  BaseNorm_A :: "real option"
  BaseNorm_B :: "real option"
  Axis_Value :: "real option"

subsection \<open>The registry\<close>

text \<open>\<open>self.points[k]\<close>: a missing key raises.\<close>

definition get_point :: "AnnotatorApp \<Rightarrow> string \<Rightarrow> py_error + Point" where
  "get_point self k = (case points self k of None \<Rightarrow> Inl KeyError | Some p \<Rightarrow> Inr p)"

text \<open>The registry that \<open>__init__\<close> builds: five points, none placed.\<close>

definition new_point :: "string \<Rightarrow> Point" where
  "new_point n = \<lparr>name = n, xy = None, line_id = None, dot_id = None, label_id = None\<rparr>"

definition init_points :: "string \<rightharpoonup> Point" where
  "init_points =
     [''Baseline'' \<mapsto> new_point ''Baseline'',
      ''Control'' \<mapsto> new_point ''Control'',
      ''A'' \<mapsto> new_point ''A'',
      ''B'' \<mapsto> new_point ''B'',
      ''Axis'' \<mapsto> new_point ''Axis'']"

subsection \<open>compute_metrics\<close>

text \<open>
  The nested helper \<open>height\<close>; the variable \<open>base_y\<close> of the enclosing scope is its
  first argument.
\<close>

definition height :: "int option \<Rightarrow> int \<Rightarrow> real option" where
  "height base_y y_top =
     (case base_y of None \<Rightarrow> None | Some b \<Rightarrow> Some (py_float (b - y_top)))"

text \<open>
  The nested helper \<open>pct\<close>. Its body sits in \<open>try ... except Exception: return None\<close>,
  so an error of the division becomes \<open>None\<close>.
\<close>

definition pct :: "real option \<Rightarrow> real option \<Rightarrow> real option" where
  "pct n d =
     (case n of None \<Rightarrow> None
      | Some nv \<Rightarrow>
         (case d of None \<Rightarrow> None
          | Some dv \<Rightarrow>
             if dv = 0 then None
             else (case py_truediv (100 * nv) dv of Inl e \<Rightarrow> None | Inr v \<Rightarrow> Some v)))"

text \<open>
  The nested helper \<open>base_norm\<close>; \<open>hAxis\<close> and \<open>self.axis_value\<close> of the enclosing
  scope are its first two arguments. There is no \<open>try\<close> around the division.
\<close>

definition base_norm :: "real option \<Rightarrow> real \<Rightarrow> real option \<Rightarrow> py_error + real option" where
  "base_norm hAxis av v_height =
     (case v_height of None \<Rightarrow> Inr None
      | Some v \<Rightarrow>
         (case hAxis of None \<Rightarrow> Inr None
          | Some h \<Rightarrow> and_then (py_truediv v h) (\<lambda>q. Inr (Some (q * av)))))"

text \<open>
  The argument expression \<open>None if x is None or y is None else x - y\<close>, which the
  dictionary literal writes out six times.
\<close>

definition sub_opt :: "real option \<Rightarrow> real option \<Rightarrow> real option" where
  "sub_opt x y =
     (case x of None \<Rightarrow> None | Some a \<Rightarrow> (case y of None \<Rightarrow> None | Some b \<Rightarrow> Some (a - b)))"

text \<open>\<open>max(abs(v) for v in candidates)\<close> on a non-empty list, scanning left to right.\<close>

definition max_abs :: "real \<Rightarrow> real list \<Rightarrow> real" where
  "max_abs v vs = foldl max \<bar>v\<bar> (map abs vs)"

text \<open>The expression \<open>height(P[1]) if P is not None else None\<close> for a point \<open>P\<close>.\<close>

definition point_height :: "int option \<Rightarrow> (int \<times> int) option \<Rightarrow> real option" where
  "point_height base_y P = (case P of None \<Rightarrow> None | Some p \<Rightarrow> height base_y (snd p))"

text \<open>
  The block that computes the Baseline-to-Axis span: \<open>None\<close> unless both rows are
  known, and \<open>None\<close> for a span of zero. (The block's \<open>try\<close> guards \<open>float\<close>, which
  does not fail on an image coordinate.)
\<close>

definition axis_span :: "int option \<Rightarrow> int option \<Rightarrow> real option" where
  "axis_span base_y axis_y =
     (case base_y of None \<Rightarrow> None
      | Some b \<Rightarrow>
         (case axis_y of None \<Rightarrow> None
          | Some a \<Rightarrow> let span = py_float (b - a) in if span \<noteq> 0 then Some span else None))"

text \<open>
  The auto-scale block: from the span and the three heights to the final \<open>hAxis\<close> and
  the flag \<open>auto_used\<close>.
\<close>

definition auto_scale ::
  "real option \<Rightarrow> real option \<Rightarrow> real option \<Rightarrow> real option \<Rightarrow> real option \<times> bool" where
  "auto_scale hAxis hA hB hC =
     (case hAxis of
        Some s \<Rightarrow> (Some s, False)
      | None \<Rightarrow>
         (case List.map_filter id [hA, hB, hC] of
            v # vs \<Rightarrow> (Some (max_abs v vs), True)
          | [] \<Rightarrow> (Some 1, True)))"

text \<open>
  The body of \<open>compute_metrics\<close> after the five reads of the registry: the arguments are
  the \<open>xy\<close> of Baseline, Control, A, B and Axis, and \<open>self.axis_value\<close>. The values of
  the dictionary literal are evaluated in the order written, so the three calls of
  \<open>base_norm\<close> come last.
\<close>

definition metrics_of ::
  "(int \<times> int) option \<Rightarrow> (int \<times> int) option \<Rightarrow> (int \<times> int) option \<Rightarrow>
   (int \<times> int) option \<Rightarrow> (int \<times> int) option \<Rightarrow> real \<Rightarrow> py_error + metrics" where
  "metrics_of baseline control A B axis_pt av =
    (let base_y = (case baseline of None \<Rightarrow> None | Some p \<Rightarrow> Some (snd p));
         axis_y = (case axis_pt of None \<Rightarrow> None | Some p \<Rightarrow> Some (snd p));
         hA = point_height base_y A;
         hB = point_height base_y B;
         hC = point_height base_y control;
         scale = auto_scale (axis_span base_y axis_y) hA hB hC;
         hAxis = fst scale;
         auto_used = snd scale
     in and_then (base_norm hAxis av hC) (\<lambda>bnC.
        and_then (base_norm hAxis av hA) (\<lambda>bnA.
        and_then (base_norm hAxis av hB) (\<lambda>bnB.
          Inr \<lparr>height_Baseline_y = (case base_y of None \<Rightarrow> None | Some b \<Rightarrow> Some (py_float b)),
               height_Control_px = hC,
               height_A_px = hA,
               height_B_px = hB,
               height_Axis_px = hAxis,
               axis_auto_used = auto_used,
               A_as_pct_of_B = pct hA hB,
               B_as_pct_of_A = pct hB hA,
               delta_A_vs_B_pct = pct (sub_opt hA hB) hB,
               delta_B_vs_A_pct = pct (sub_opt hB hA) hA,
               A_as_pct_of_Control = pct hA hC,
               Control_as_pct_of_A = pct hC hA,
               delta_A_vs_Control_pct = pct (sub_opt hA hC) hC,
               delta_Control_vs_A_pct = pct (sub_opt hC hA) hA,
               B_as_pct_of_Control = pct hB hC,
               Control_as_pct_of_B = pct hC hB,
               delta_B_vs_Control_pct = pct (sub_opt hB hC) hC,
               delta_Control_vs_B_pct = pct (sub_opt hC hB) hB,
               BaseNorm_Control = bnC,
               BaseNorm_A = bnA,
               BaseNorm_B = bnB,
               Axis_Value = Some av\<rparr>))))"

definition compute_metrics :: "AnnotatorApp \<Rightarrow> py_error + metrics" where
  "compute_metrics self =
     and_then (get_point self ''Baseline'') (\<lambda>p_baseline.
     and_then (get_point self ''Control'') (\<lambda>p_control.
     and_then (get_point self ''A'') (\<lambda>p_A.
     and_then (get_point self ''B'') (\<lambda>p_B.
     and_then (get_point self ''Axis'') (\<lambda>p_axis.
       metrics_of (xy p_baseline) (xy p_control) (xy p_A) (xy p_B) (xy p_axis)
         (axis_value self))))))"

subsection \<open>Writing the registry\<close>

text \<open>The tuple of names that \<open>set_mode\<close> and \<open>on_canvas_click\<close> test membership in.\<close>

definition point_names :: "string list" where
  "point_names = [''Baseline'', ''Control'', ''A'', ''B'', ''Axis'']"

text \<open>\<open>set_mode\<close> stores any mode it is given (the status line is not modelled).\<close>

definition set_mode :: "AnnotatorApp \<Rightarrow> string option \<Rightarrow> AnnotatorApp" where
  "set_mode self mode = self\<lparr>current_mode := mode\<rparr>"

text \<open>
  \<open>canvas_to_image_xy\<close>: divide by the display scale unless it is zero (a division of
  doubles, so the quotient is rounded), truncate, and clamp to the image if there is
  one.
\<close>

definition canvas_to_image_xy :: "AnnotatorApp \<Rightarrow> int \<Rightarrow> int \<Rightarrow> int \<times> int" where
  "canvas_to_image_xy self x y =
     (let sx = fst (display_scale self);
          sy = snd (display_scale self);
          ix = (if sx \<noteq> 0 then py_int (double_round (of_int x / sx)) else 0);
          iy = (if sy \<noteq> 0 then py_int (double_round (of_int y / sy)) else 0)
      in case image self of
           None \<Rightarrow> (ix, iy)
         | Some (w, h) \<Rightarrow> (max 0 (min (w - 1) ix), max 0 (min (h - 1) iy)))"

text \<open>\<open>clear_overlay_text\<close> deletes the overlay's canvas items and forgets them.\<close>

definition clear_overlay_text :: "AnnotatorApp \<Rightarrow> AnnotatorApp" where
  "clear_overlay_text self = self\<lparr>overlay_items := []\<rparr>"

text \<open>
  \<open>clear_marks\<close>: for every point of the registry the three canvas ids and the
  coordinate become \<open>None\<close>; then the overlay is cleared.
\<close>

definition clear_marks :: "AnnotatorApp \<Rightarrow> AnnotatorApp" where
  "clear_marks self =
     clear_overlay_text
       (self\<lparr>points :=
          (\<lambda>k. case points self k of
                 None \<Rightarrow> None
               | Some pt \<Rightarrow> Some (pt\<lparr>line_id := None, dot_id := None, label_id := None,
                                       xy := None\<rparr>))\<rparr>)"

text \<open>
  \<open>draw_point\<close>: nothing without an image; otherwise the point's old canvas items are
  deleted and a guide line, a dot and a label are created, in this order.
\<close>

definition draw_point :: "AnnotatorApp \<Rightarrow> string \<Rightarrow> int \<times> int \<Rightarrow> py_error + AnnotatorApp" where
  "draw_point self nm img_xy =
     (if image self = None then Inr self
      else and_then (get_point self nm) (\<lambda>pt.
        let n = canvas_next self
        in Inr (self\<lparr>points := (points self)(nm \<mapsto>
                        pt\<lparr>line_id := Some n, dot_id := Some (n + 1), label_id := Some (n + 2)\<rparr>),
                     canvas_next := n + 3\<rparr>)))"

text \<open>
  \<open>update_metrics_overlay\<close>: the overlay is cleared, the metrics are computed, and a
  text item and its background rectangle are created. An exception of
  \<open>compute_metrics\<close> leaves the method after the overlay has been cleared. The result
  is the state after the call and the exception that left it, if any.
\<close>

definition update_metrics_overlay :: "AnnotatorApp \<Rightarrow> AnnotatorApp \<times> py_error option" where
  "update_metrics_overlay self =
     (let self1 = clear_overlay_text self
      in case compute_metrics self1 of
           Inl e \<Rightarrow> (self1, Some e)
         | Inr m \<Rightarrow>
            (let t = canvas_next self1; rect = t + 1
             in (self1\<lparr>overlay_items := [rect, t], canvas_next := t + 2\<rparr>, None)))"

text \<open>
  \<open>on_canvas_click\<close> at canvas position \<open>(ex, ey)\<close>: without an image, or in a mode
  that is not one of the five names, the method returns at once. Otherwise it stores
  the image coordinate in the point named by the mode, draws it, leaves the mode and
  refreshes the overlay.
\<close>

definition on_canvas_click :: "AnnotatorApp \<Rightarrow> int \<Rightarrow> int \<Rightarrow> AnnotatorApp \<times> py_error option" where
  "on_canvas_click self ex ey =
     (case current_mode self of
        None \<Rightarrow> (self, None)
      | Some mode \<Rightarrow>
         if image self = None \<or> mode \<notin> set point_names then (self, None)
         else
           (let img_xy = canvas_to_image_xy self ex ey
            in case get_point self mode of
                 Inl e \<Rightarrow> (self, Some e)
               | Inr pt \<Rightarrow>
                  (let self1 = self\<lparr>points := (points self)(mode \<mapsto> pt\<lparr>xy := Some img_xy\<rparr>)\<rparr>
                   in case draw_point self1 mode img_xy of
                        Inl e \<Rightarrow> (self1, Some e)
                      | Inr self2 \<Rightarrow> update_metrics_overlay (self2\<lparr>current_mode := None\<rparr>))))"

section \<open>Notions used in the statements\<close>

text \<open>The coordinate stored under a name, and its row (the \<open>y\<close> component).\<close>

definition point_xy :: "AnnotatorApp \<Rightarrow> string \<Rightarrow> (int \<times> int) option" where
  "point_xy self k = (case points self k of None \<Rightarrow> None | Some p \<Rightarrow> xy p)"

definition row :: "AnnotatorApp \<Rightarrow> string \<Rightarrow> int option" where
  "row self k = (case point_xy self k of None \<Rightarrow> None | Some c \<Rightarrow> Some (snd c))"

text \<open>
  The specification's height of a point \<open>P\<close>: defined when Baseline and \<open>P\<close> are both
  placed, and then the row of Baseline minus the row of \<open>P\<close>.
\<close>

definition spec_height :: "AnnotatorApp \<Rightarrow> string \<Rightarrow> real option" where
  "spec_height self P =
     (case row self ''Baseline'' of None \<Rightarrow> None
      | Some b \<Rightarrow> (case row self P of None \<Rightarrow> None | Some y \<Rightarrow> Some (of_int (b - y))))"

text \<open>
  The specification's fallback divisor: the largest absolute defined height among
  Control, A and B, or 1 if none is defined.
\<close>

definition spec_divisor :: "AnnotatorApp \<Rightarrow> real" where
  "spec_divisor self =
     (let hs = List.map_filter (spec_height self) [''Control'', ''A'', ''B'']
      in if hs = [] then 1 else Max (abs ` set hs))"

text \<open>
  What is claimed of a returned height \<open>v\<close> of the point \<open>P\<close>: it is defined exactly
  when Baseline and \<open>P\<close> are placed, it is the difference of the rows, and it is
  positive for a point above Baseline (a smaller row).
\<close>

definition height_as_claimed :: "AnnotatorApp \<Rightarrow> string \<Rightarrow> real option \<Rightarrow> bool" where
  "height_as_claimed self P v \<longleftrightarrow>
     ((v \<noteq> None) = (row self ''Baseline'' \<noteq> None \<and> row self P \<noteq> None)) \<and>
     (\<forall>b y. row self ''Baseline'' = Some b \<and> row self P = Some y \<longrightarrow>
        v = Some (of_int (b - y)) \<and> (y < b \<longrightarrow> (\<exists>h. v = Some h \<and> 0 < h)))"

text \<open>
  What is claimed of the two directional metrics of an ordered pair with heights
  \<open>hx\<close> and \<open>hy\<close>: defined exactly when both heights are defined and \<open>hy\<close> is not zero,
  and then given by the two formulas.
\<close>

definition pct_as_claimed :: "real option \<Rightarrow> real option \<Rightarrow> real option \<Rightarrow> bool" where
  "pct_as_claimed hx hy v \<longleftrightarrow>
     ((v \<noteq> None) = (hx \<noteq> None \<and> hy \<noteq> None \<and> hy \<noteq> Some 0)) \<and>
     (\<forall>x y. hx = Some x \<and> hy = Some y \<and> y \<noteq> 0 \<longrightarrow> v = Some (100 * x / y))"

definition delta_as_claimed :: "real option \<Rightarrow> real option \<Rightarrow> real option \<Rightarrow> bool" where
  "delta_as_claimed hx hy v \<longleftrightarrow>
     ((v \<noteq> None) = (hx \<noteq> None \<and> hy \<noteq> None \<and> hy \<noteq> Some 0)) \<and>
     (\<forall>x y. hx = Some x \<and> hy = Some y \<and> y \<noteq> 0 \<longrightarrow> v = Some (100 * (x - y) / y))"

text \<open>
  The relation between the two percentages \<open>v\<close> (X as percent of Y) and \<open>w\<close> (Y as
  percent of X) of a pair with nonzero heights: their product is \<open>100 * 100\<close>, and
  they coincide exactly when the heights have the same absolute value.
\<close>

definition reciprocal_pair ::
  "real option \<Rightarrow> real option \<Rightarrow> real option \<Rightarrow> real option \<Rightarrow> bool" where
  "reciprocal_pair hx hy v w \<longleftrightarrow>
     (\<forall>x y. hx = Some x \<and> hy = Some y \<and> x \<noteq> 0 \<and> y \<noteq> 0 \<longrightarrow>
        (\<exists>p q. v = Some p \<and> w = Some q \<and> p * q = 100 * 100 \<and> ((p = q) = (\<bar>x\<bar> = \<bar>y\<bar>))))"

text \<open>
  Two application states with the same registry contents: under each of the five
  names, the same key presence and the same coordinate.
\<close>

definition same_registry :: "AnnotatorApp \<Rightarrow> AnnotatorApp \<Rightarrow> bool" where
  "same_registry s t \<longleftrightarrow>
     (\<forall>k \<in> set point_names. map_option xy (points s k) = map_option xy (points t k))"

text \<open>The five keys that \<open>__init__\<close> creates are present.\<close>

definition registry_ok :: "AnnotatorApp \<Rightarrow> bool" where
  "registry_ok self \<longleftrightarrow> (\<forall>k \<in> set point_names. points self k \<noteq> None)"

text \<open>The result for a registry without any placed point and calibration value \<open>av\<close>.\<close>

definition cleared_metrics :: "real \<Rightarrow> metrics" where
  "cleared_metrics av =
     \<lparr>height_Baseline_y = None, height_Control_px = None, height_A_px = None,
      height_B_px = None, height_Axis_px = Some 1, axis_auto_used = True,
      A_as_pct_of_B = None, B_as_pct_of_A = None,
      delta_A_vs_B_pct = None, delta_B_vs_A_pct = None,
      A_as_pct_of_Control = None, Control_as_pct_of_A = None,
      delta_A_vs_Control_pct = None, delta_Control_vs_A_pct = None,
      B_as_pct_of_Control = None, Control_as_pct_of_B = None,
      delta_B_vs_Control_pct = None, delta_Control_vs_B_pct = None,
      BaseNorm_Control = None, BaseNorm_A = None, BaseNorm_B = None,
      Axis_Value = Some av\<rparr>"

subsection \<open>Concrete states\<close>

text \<open>
  The application after \<open>__init__\<close> and the loading of an 800 by 600 image shown at
  scale 1, and the user action "choose a point button, then click the canvas".
\<close>

definition app_init :: AnnotatorApp where
  "app_init =
     \<lparr>image = Some (800, 600), display_scale = (1, 1), points = init_points,
      axis_value = 100, current_mode = None, overlay_items = [], canvas_next = 1\<rparr>"

definition click :: "AnnotatorApp \<Rightarrow> string \<Rightarrow> int \<Rightarrow> int \<Rightarrow> AnnotatorApp \<times> py_error option" where
  "click self nm ex ey = on_canvas_click (set_mode self (Some nm)) ex ey"

text \<open>A registry with the listed points placed, and no canvas items.\<close>

definition app_with :: "(string \<times> (int \<times> int)) list \<Rightarrow> AnnotatorApp" where
  "app_with ps =
     app_init\<lparr>points :=
       (\<lambda>k. case init_points k of
              None \<Rightarrow> None
            | Some p \<Rightarrow> Some (p\<lparr>xy := map_of ps k\<rparr>))\<rparr>"

text \<open>
  The two scenarios of the specification: Baseline in row 500, Control in row 400, A in
  row 300, B in row 350; without an Axis tick, and with one in row 450.
\<close>

definition scenario_auto :: AnnotatorApp where
  "scenario_auto =
     app_with [(''Baseline'', (0, 500)), (''Control'', (10, 400)), (''A'', (20, 300)),
               (''B'', (30, 350))]"

definition scenario_axis :: AnnotatorApp where
  "scenario_axis =
     app_with [(''Baseline'', (0, 500)), (''Control'', (10, 400)), (''A'', (20, 300)),
               (''B'', (30, 350)), (''Axis'', (5, 450))]"

text \<open>
  The metrics of both scenarios, up to the divisor, the flag and the three calibrated
  values.
\<close>

definition scenario_metrics :: "real \<Rightarrow> bool \<Rightarrow> real \<Rightarrow> real \<Rightarrow> real \<Rightarrow> metrics" where
  "scenario_metrics d auto bnC bnA bnB =
     \<lparr>height_Baseline_y = Some 500, height_Control_px = Some 100, height_A_px = Some 200,
      height_B_px = Some 150, height_Axis_px = Some d, axis_auto_used = auto,
      A_as_pct_of_B = Some (400 / 3), B_as_pct_of_A = Some 75,
      delta_A_vs_B_pct = Some (100 / 3), delta_B_vs_A_pct = Some (- 25),
      A_as_pct_of_Control = Some 200, Control_as_pct_of_A = Some 50,
      delta_A_vs_Control_pct = Some 100, delta_Control_vs_A_pct = Some (- 50),
      B_as_pct_of_Control = Some 150, Control_as_pct_of_B = Some (200 / 3),
      delta_B_vs_Control_pct = Some 50, delta_Control_vs_B_pct = Some (- (100 / 3)),
      BaseNorm_Control = Some bnC, BaseNorm_A = Some bnA, BaseNorm_B = Some bnB,
      Axis_Value = Some 100\<rparr>"

text \<open>
  Baseline and A clicked in the same row of the fresh application, nothing else placed.
\<close>

definition app_level :: AnnotatorApp where
  "app_level = fst (click (fst (click app_init ''Baseline'' 10 100)) ''A'' 50 100)"

text \<open>Baseline, Axis and Control clicked in the same row of the fresh application.\<close>

definition app_axis_level :: AnnotatorApp where
  "app_axis_level =
     fst (click (fst (click (fst (click app_init ''Baseline'' 10 100)) ''Axis'' 30 100))
            ''Control'' 60 100)"

text \<open>Baseline, A and B clicked in the same row of the fresh application.\<close>

definition app_flat :: AnnotatorApp where
  "app_flat =
     fst (click (fst (click (fst (click app_init ''Baseline'' 10 100)) ''A'' 50 100)) ''B'' 90 100)"

text \<open>
  A 4000 by 3000 image shown at one fifth of its size: the display scale is the double
  nearest to 0.2, which is \<open>3602879701896397 / 2^54\<close>.
\<close>

definition app_fifth :: AnnotatorApp where
  "app_fifth =
     app_init\<lparr>image := Some (4000, 3000),
              display_scale := (3602879701896397 / 2 ^ 54, 3602879701896397 / 2 ^ 54)\<rparr>"

text \<open>
  Baseline clicked in row 100 of the fresh application, then A and B below it, in
  rows 150 and 200.
\<close>

definition app_below :: AnnotatorApp where
  "app_below =
     fst (click (fst (click (fst (click app_init ''Baseline'' 0 100)) ''A'' 10 150)) ''B'' 20 200)"

text \<open>Baseline in row 200; A and B both in row 100.\<close>

definition app_equal :: AnnotatorApp where
  "app_equal = app_with [(''Baseline'', (0, 200)), (''A'', (10, 100)), (''B'', (50, 100))]"

text \<open>Only A placed: neither Baseline nor Axis.\<close>

definition app_only_A :: AnnotatorApp where
  "app_only_A = app_with [(''A'', (20, 300))]"

section \<open>Facts about the embedding\<close>

subsection \<open>Rounding to a double\<close>

text \<open>
  A real in the binade \<open>[2^k, 2^(k+1))\<close> is rounded on the grid of step \<open>2^(k-52)\<close>;
  an integer below \<open>2^53\<close> in absolute value is a double.
\<close>

lemma round_half_even_of_int: "round_half_even (of_int j) = j"
  by (simp add: round_half_even_def)

lemma floor_log2_binade:
  fixes x :: real
  assumes "2 ^ k \<le> x" and "x < 2 ^ Suc k"
  shows "\<lfloor>log 2 x\<rfloor> = int k"
proof -
  have pos: "0 < x" using assms(1) zero_less_power[of "2::real" k] by linarith
  have pk: "(2::real) powr real k = 2 ^ k" and ps: "(2::real) powr real (Suc k) = 2 ^ Suc k"
    by (rule powr_realpow, simp)+
  have a: "2 powr (real_of_int (int k)) \<le> x"
    using assms(1) pk by simp
  have "real_of_int (int k + 1) = real (Suc k)" by simp
  then have b: "x < 2 powr (real_of_int (int k + 1))"
    using assms(2) ps by (simp only:)
  from a b show ?thesis
    using floor_log_eq_powr_iff[of x 2 "int k"] pos by simp
qed


lemma double_round_binade:
  assumes "2 ^ k \<le> \<bar>r\<bar>" and "\<bar>r\<bar> < 2 ^ Suc k" and "k \<le> 52"
  shows "double_round r = sgn r * of_int (round_half_even (\<bar>r\<bar> * 2 ^ (52 - k))) / 2 ^ (52 - k)"
proof -
  have nz: "r \<noteq> 0"
  proof
    assume "r = 0"
    with assms(1) have "(2::real) ^ k \<le> 0" by simp
    moreover have "(0::real) < 2 ^ k" by simp
    ultimately show False by linarith
  qed
  have fl: "\<lfloor>log 2 \<bar>r\<bar>\<rfloor> = int k"
    using assms(1,2) by (rule floor_log2_binade)
  have "real_of_int (int k) - 52 = - real (52 - k)" using assms(3) by simp
  moreover have "(2::real) powr real (52 - k) = 2 ^ (52 - k)" by (rule powr_realpow) simp
  ultimately have u: "2 powr (real_of_int (int k) - 52) = 1 / 2 ^ (52 - k)"
    by (simp only: powr_minus inverse_eq_divide)
  show ?thesis
    unfolding double_round_def Let_def fl u using nz by simp
qed

lemma double_round_of_int:
  assumes "\<bar>n\<bar> < 2 ^ 53"
  shows "double_round (of_int n) = of_int n"
proof (cases "n = 0")
  case True
  then show ?thesis by (simp add: double_round_def)
next
  case False
  define k where "k = (LEAST k. \<bar>n\<bar> < 2 ^ Suc k)"
  have ex: "\<bar>n\<bar> < 2 ^ Suc 52" using assms by simp
  have up: "\<bar>n\<bar> < 2 ^ Suc k" unfolding k_def using ex by (rule LeastI)
  have k52: "k \<le> 52" unfolding k_def using ex by (rule Least_le)
  have lo: "2 ^ k \<le> \<bar>n\<bar>"
  proof (cases k)
    case 0
    then show ?thesis using False by simp
  next
    case (Suc k')
    have "\<not> \<bar>n\<bar> < 2 ^ Suc k'"
      using not_less_Least[of k' "\<lambda>k. \<bar>n\<bar> < 2 ^ Suc k"] Suc by (simp add: k_def)
    then show ?thesis using Suc by simp
  qed
  have lo': "2 ^ k \<le> \<bar>real_of_int n\<bar>"
  proof -
    have "real_of_int (2 ^ k) \<le> real_of_int \<bar>n\<bar>" using lo by (simp only: of_int_le_iff)
    then show ?thesis by simp
  qed
  have up': "\<bar>real_of_int n\<bar> < 2 ^ Suc k"
  proof -
    have "real_of_int \<bar>n\<bar> < real_of_int (2 ^ Suc k)" using up by (simp only: of_int_less_iff)
    then show ?thesis by simp
  qed
  have "\<bar>real_of_int n\<bar> * 2 ^ (52 - k) = of_int (\<bar>n\<bar> * 2 ^ (52 - k))" by simp
  then have r: "round_half_even (\<bar>real_of_int n\<bar> * 2 ^ (52 - k)) = \<bar>n\<bar> * 2 ^ (52 - k)"
    by (simp only: round_half_even_of_int)
  have "double_round (of_int n) =
      sgn (real_of_int n) * of_int (\<bar>n\<bar> * 2 ^ (52 - k)) / 2 ^ (52 - k)"
    using double_round_binade[OF lo' up' k52] r by simp
  also have "\<dots> = sgn (real_of_int n) * \<bar>real_of_int n\<bar>" by simp
  also have "\<dots> = of_int n" by (simp only: sgn_mult_abs)
  finally show ?thesis .
qed

lemma double_round_numeral [simp]:
  "(numeral w :: int) < 2 ^ 53 \<Longrightarrow> double_round (numeral w) = numeral w"
  using double_round_of_int[of "numeral w"] by simp

lemma double_round_0 [simp]: "double_round 0 = 0"
  by (simp add: double_round_def)

lemma double_round_1 [simp]: "double_round 1 = 1"
  using double_round_of_int[of 1] by simp

text \<open>
  At one fifth of the size the canvas position (1, 2) is the image position (5, 10):
  the exact quotients lie just below 5 and 10, the rounded ones are 5 and 10.
\<close>

lemma canvas_to_image_xy_fifth: "canvas_to_image_xy app_fifth 1 2 = (5, 10)"
proof -
  have "double_round (1 / (3602879701896397 / 2 ^ 54)) = 5"
    using double_round_binade[of 2 "1 / (3602879701896397 / 2 ^ 54)"]
    by (simp add: round_half_even_def)
  moreover have "double_round (2 / (3602879701896397 / 2 ^ 54)) = 10"
    using double_round_binade[of 3 "2 / (3602879701896397 / 2 ^ 54)"]
    by (simp add: round_half_even_def)
  ultimately show ?thesis
    by (simp add: canvas_to_image_xy_def app_fifth_def app_init_def py_int_def)
qed

subsection \<open>Running compute_metrics\<close>

lemmas run_defs =
  compute_metrics_def metrics_of_def get_point_def and_then_def app_with_def app_init_def
  init_points_def new_point_def point_height_def height_def py_float_def axis_span_def
  auto_scale_def max_abs_def List.map_filter_def base_norm_def py_truediv_def pct_def
  sub_opt_def Let_def

lemmas click_defs =
  click_def set_mode_def on_canvas_click_def point_names_def canvas_to_image_xy_def py_int_def
  draw_point_def update_metrics_overlay_def clear_overlay_text_def

lemma scenario_auto_run:
  "compute_metrics scenario_auto = Inr (scenario_metrics 200 True 50 100 75)"
  by (simp add: scenario_auto_def scenario_metrics_def run_defs)

lemma scenario_axis_run:
  "compute_metrics scenario_axis = Inr (scenario_metrics 50 False 200 400 300)"
  by (simp add: scenario_axis_def scenario_metrics_def run_defs)


lemma compute_metrics_Inr:
  assumes "compute_metrics self = Inr m"
  shows "metrics_of (point_xy self ''Baseline'') (point_xy self ''Control'')
           (point_xy self ''A'') (point_xy self ''B'') (point_xy self ''Axis'')
           (axis_value self) = Inr m"
  using assms
  by (auto simp: compute_metrics_def and_then_def get_point_def point_xy_def
           split: option.splits sum.splits)

lemma point_height_row:
  "point_height (case point_xy self ''Baseline'' of None \<Rightarrow> None | Some p \<Rightarrow> Some (snd p))
     (point_xy self k) = spec_height self k"
  by (simp add: point_height_def height_def py_float_def spec_height_def row_def
           split: option.splits)

lemma metrics_of_fields:
  assumes "metrics_of baseline control A B axis_pt av = Inr m"
  defines "base_y \<equiv> (case baseline of None \<Rightarrow> None | Some p \<Rightarrow> Some (snd p))"
  defines "axis_y \<equiv> (case axis_pt of None \<Rightarrow> None | Some p \<Rightarrow> Some (snd p))"
  defines "hA \<equiv> point_height base_y A"
  defines "hB \<equiv> point_height base_y B"
  defines "hC \<equiv> point_height base_y control"
  defines "scale \<equiv> auto_scale (axis_span base_y axis_y) hA hB hC"
  shows "height_A_px m = hA" "height_B_px m = hB" "height_Control_px m = hC"
    "height_Axis_px m = fst scale" "axis_auto_used m = snd scale"
    "A_as_pct_of_B m = pct hA hB" "B_as_pct_of_A m = pct hB hA"
    "delta_A_vs_B_pct m = pct (sub_opt hA hB) hB"
    "delta_B_vs_A_pct m = pct (sub_opt hB hA) hA"
    "A_as_pct_of_Control m = pct hA hC" "Control_as_pct_of_A m = pct hC hA"
    "delta_A_vs_Control_pct m = pct (sub_opt hA hC) hC"
    "delta_Control_vs_A_pct m = pct (sub_opt hC hA) hA"
    "B_as_pct_of_Control m = pct hB hC" "Control_as_pct_of_B m = pct hC hB"
    "delta_B_vs_Control_pct m = pct (sub_opt hB hC) hC"
    "delta_Control_vs_B_pct m = pct (sub_opt hC hB) hB"
    "base_norm (fst scale) av hC = Inr (BaseNorm_Control m)"
    "base_norm (fst scale) av hA = Inr (BaseNorm_A m)"
    "base_norm (fst scale) av hB = Inr (BaseNorm_B m)"
    "Axis_Value m = Some av"
    "height_Baseline_y m = (case base_y of None \<Rightarrow> None | Some b \<Rightarrow> Some (py_float b))"
  using assms
  by (auto simp: metrics_of_def Let_def and_then_def split: sum.splits)

lemma foldl_max_Max:
  fixes x :: real
  shows "foldl max x xs = Max (set (x # xs))"
  unfolding foldl_conv_fold Max.set_eq_fold by (simp add: max.commute)

lemma max_abs_Max: "max_abs v vs = Max (abs ` set (v # vs))"
  by (simp add: max_abs_def foldl_max_Max)

lemma auto_scale_spec:
  "auto_scale None (spec_height self ''A'') (spec_height self ''B'') (spec_height self ''Control'')
     = (Some (spec_divisor self), True)"
  by (auto simp: auto_scale_def spec_divisor_def List.map_filter_def max_abs_Max Let_def
                 max.commute max.left_commute
           split: list.splits option.splits)

lemma auto_scale_defined: "\<exists>d. fst (auto_scale s hA hB hC) = Some d"
  by (simp add: auto_scale_def split: option.splits list.splits)

lemma compute_metrics_heights:
  assumes "compute_metrics self = Inr m"
  shows "height_A_px m = spec_height self ''A''"
    "height_B_px m = spec_height self ''B''"
    "height_Control_px m = spec_height self ''Control''"
  using metrics_of_fields(1-3)[OF compute_metrics_Inr[OF assms]]
  by (simp_all add: point_height_row)

lemma compute_metrics_scale:
  assumes "compute_metrics self = Inr m"
  shows "(height_Axis_px m, axis_auto_used m) =
     auto_scale (axis_span (row self ''Baseline'') (row self ''Axis''))
       (spec_height self ''A'') (spec_height self ''B'') (spec_height self ''Control'')"
  using metrics_of_fields(4,5)[OF compute_metrics_Inr[OF assms]]
  by (simp add: point_height_row row_def prod_eq_iff)

lemma spec_height_claimed: "height_as_claimed self P (spec_height self P)"
  by (auto simp: height_as_claimed_def spec_height_def split: option.splits)

lemma axis_span_cases:
  "axis_span (Some b) (Some a) = (if a = b then None else Some (of_int (b - a)))"
  "axis_span None y = None"
  "axis_span x None = None"
  by (auto simp: axis_span_def py_float_def Let_def split: option.splits)

lemma pct_claimed: "pct_as_claimed hx hy (pct hx hy)"
  by (auto simp: pct_as_claimed_def pct_def py_truediv_def split: option.splits)

lemma delta_claimed: "delta_as_claimed hx hy (pct (sub_opt hx hy) hy)"
  by (auto simp: delta_as_claimed_def pct_def sub_opt_def py_truediv_def split: option.splits)

lemma compute_metrics_pcts:
  assumes "compute_metrics self = Inr m"
  defines "hA \<equiv> spec_height self ''A''"
  defines "hB \<equiv> spec_height self ''B''"
  defines "hC \<equiv> spec_height self ''Control''"
  shows "A_as_pct_of_B m = pct hA hB" "B_as_pct_of_A m = pct hB hA"
    "delta_A_vs_B_pct m = pct (sub_opt hA hB) hB"
    "delta_B_vs_A_pct m = pct (sub_opt hB hA) hA"
    "A_as_pct_of_Control m = pct hA hC" "Control_as_pct_of_A m = pct hC hA"
    "delta_A_vs_Control_pct m = pct (sub_opt hA hC) hC"
    "delta_Control_vs_A_pct m = pct (sub_opt hC hA) hA"
    "B_as_pct_of_Control m = pct hB hC" "Control_as_pct_of_B m = pct hC hB"
    "delta_B_vs_Control_pct m = pct (sub_opt hB hC) hC"
    "delta_Control_vs_B_pct m = pct (sub_opt hC hB) hB"
  using metrics_of_fields(6-17)[OF compute_metrics_Inr[OF assms(1)]]
  by (simp_all add: point_height_row hA_def hB_def hC_def)

text \<open>
  The sign of a difference percentage: it follows the order of the two heights over a
  positive divisor height and reverses it over a negative one.
\<close>

lemma delta_sign:
  assumes "pct (sub_opt (Some x) (Some y)) (Some y) = Some d"
  shows "0 < y \<Longrightarrow> (0 < d) = (y < x)" and "y < 0 \<Longrightarrow> (0 < d) = (x < y)"
  using assms
  by (auto simp: pct_def sub_opt_def py_truediv_def zero_less_divide_iff split: if_splits)

lemma reciprocal_pct: "reciprocal_pair hx hy (pct hx hy) (pct hy hx)"
proof -
  have "100 * x / y * (100 * y / x) = 100 * 100" if "x \<noteq> 0" "y \<noteq> 0" for x y :: real
    using that by simp
  moreover have "(100 * x / y = 100 * y / x) = (\<bar>x\<bar> = \<bar>y\<bar>)" if "x \<noteq> 0" "y \<noteq> 0" for x y :: real
  proof -
    have "(100 * x / y = 100 * y / x) = (x * x = y * y)"
      using that by (simp add: frac_eq_eq)
    also have "\<dots> = (x\<^sup>2 = y\<^sup>2)" by (simp add: power2_eq_square)
    also have "\<dots> = (\<bar>x\<bar> = \<bar>y\<bar>)" by (simp add: power2_eq_iff abs_eq_iff)
    finally show ?thesis .
  qed
  ultimately show ?thesis
    by (simp add: reciprocal_pair_def pct_def py_truediv_def)
qed

subsection \<open>When compute_metrics raises\<close>

lemma and_then_Inl_iff:
  "(and_then r f = Inl e) = (r = Inl e \<or> (\<exists>x. r = Inr x \<and> f x = Inl e))"
  by (cases r) (simp_all add: and_then_def)

lemma base_norm_Inl_iff:
  "(base_norm (Some d) av h = Inl e) = (e = ZeroDivisionError \<and> d = 0 \<and> h \<noteq> None)"
  by (cases h) (auto simp: base_norm_def and_then_def py_truediv_def)

lemma base_norm_Inr_iff:
  "(\<exists>v. base_norm (Some d) av h = Inr v) = (d \<noteq> 0 \<or> h = None)"
  by (cases h) (auto simp: base_norm_def and_then_def py_truediv_def)

lemma metrics_of_raises_iff:
  fixes baseline control A B axis_pt
  defines "base_y \<equiv> (case baseline of None \<Rightarrow> None | Some p \<Rightarrow> Some (snd p))"
  defines "axis_y \<equiv> (case axis_pt of None \<Rightarrow> None | Some p \<Rightarrow> Some (snd p))"
  defines "hA \<equiv> point_height base_y A"
  defines "hB \<equiv> point_height base_y B"
  defines "hC \<equiv> point_height base_y control"
  shows "(metrics_of baseline control A B axis_pt av = Inl e) =
     (e = ZeroDivisionError \<and>
      fst (auto_scale (axis_span base_y axis_y) hA hB hC) = Some 0 \<and>
      (hA \<noteq> None \<or> hB \<noteq> None \<or> hC \<noteq> None))"
proof -
  obtain d where d: "fst (auto_scale (axis_span base_y axis_y) hA hB hC) = Some d"
    using auto_scale_defined by blast
  have "(metrics_of baseline control A B axis_pt av = Inl e) =
     (base_norm (Some d) av hC = Inl e \<or>
      (\<exists>v. base_norm (Some d) av hC = Inr v) \<and>
        (base_norm (Some d) av hA = Inl e \<or>
         (\<exists>v. base_norm (Some d) av hA = Inr v) \<and> base_norm (Some d) av hB = Inl e))"
    unfolding metrics_of_def Let_def
    using d unfolding base_y_def axis_y_def hA_def hB_def hC_def
    by (simp add: and_then_Inl_iff)
  then show ?thesis
    unfolding d base_norm_Inl_iff base_norm_Inr_iff by auto
qed

lemma compute_metrics_ok:
  assumes "registry_ok self"
  shows "compute_metrics self =
     metrics_of (point_xy self ''Baseline'') (point_xy self ''Control'')
       (point_xy self ''A'') (point_xy self ''B'') (point_xy self ''Axis'') (axis_value self)"
  using assms
  by (auto simp: registry_ok_def point_names_def compute_metrics_def get_point_def
                 and_then_def point_xy_def)

text \<open>
  With the five keys present, \<open>compute_metrics\<close> raises exactly when there is no
  usable Axis span, some height is defined, and every defined height is zero; the
  exception is then \<open>ZeroDivisionError\<close>.
\<close>

lemma compute_metrics_raises_iff:
  assumes "registry_ok self"
  shows "(compute_metrics self = Inl e) =
     (e = ZeroDivisionError \<and>
      axis_span (row self ''Baseline'') (row self ''Axis'') = None \<and>
      spec_divisor self = 0 \<and>
      (spec_height self ''A'' \<noteq> None \<or> spec_height self ''B'' \<noteq> None \<or>
       spec_height self ''Control'' \<noteq> None))"
proof (cases "axis_span (row self ''Baseline'') (row self ''Axis'')")
  case None
  then show ?thesis
    unfolding compute_metrics_ok[OF assms] metrics_of_raises_iff point_height_row
    by (simp add: row_def[symmetric] auto_scale_spec)
next
  case (Some s)
  then have "s \<noteq> 0"
    by (auto simp: axis_span_def Let_def split: option.splits if_splits)
  with Some show ?thesis
    unfolding compute_metrics_ok[OF assms] metrics_of_raises_iff point_height_row
    by (simp add: row_def[symmetric] auto_scale_def)
qed

section \<open>What holds whenever compute_metrics returns\<close>

text \<open>
  On every state on which \<open>compute_metrics\<close> returns, the height it returns for each
  of Control, A and B is defined if and only if both Baseline and that point are
  placed; it then equals the row of Baseline minus the row of the point and is positive
  for a point above Baseline.
\<close>

lemma returned_heights:
  assumes "compute_metrics self = Inr m"
  shows "height_as_claimed self ''Control'' (height_Control_px m) \<and>
         height_as_claimed self ''A'' (height_A_px m) \<and>
         height_as_claimed self ''B'' (height_B_px m)"
  by (simp add: compute_metrics_heights[OF assms] spec_height_claimed)

text \<open>
  On every such state: with Baseline and Axis placed in different rows, the auto flag
  is false and the divisor is the difference of the rows; with Axis unplaced or in
  the row of Baseline, the auto flag is true and the divisor is the largest absolute
  defined height among Control, A and B, or 1 if none is defined; with Baseline
  unplaced, the auto flag is true and the divisor is 1.
\<close>

lemma returned_divisor:
  assumes "compute_metrics self = Inr m"
  shows "(\<forall>b a. row self ''Baseline'' = Some b \<and> row self ''Axis'' = Some a \<and> a \<noteq> b \<longrightarrow>
            \<not> axis_auto_used m \<and> height_Axis_px m = Some (of_int (b - a))) \<and>
         (row self ''Axis'' = None \<or> row self ''Axis'' = row self ''Baseline'' \<longrightarrow>
            axis_auto_used m \<and> height_Axis_px m = Some (spec_divisor self)) \<and>
         (row self ''Baseline'' = None \<longrightarrow>
            axis_auto_used m \<and> height_Axis_px m = Some 1)"
proof -
  note sc = compute_metrics_scale[OF assms]
  have not_auto: "\<not> axis_auto_used m \<and> height_Axis_px m = Some (of_int (b - a))"
    if "row self ''Baseline'' = Some b" "row self ''Axis'' = Some a" "a \<noteq> b" for a b
  proof -
    from that have "axis_span (row self ''Baseline'') (row self ''Axis'') = Some (of_int (b - a))"
      by (simp add: axis_span_cases)
    with sc show ?thesis by (simp add: auto_scale_def)
  qed
  have auto: "axis_auto_used m \<and> height_Axis_px m = Some (spec_divisor self)"
    if "row self ''Axis'' = None \<or> row self ''Axis'' = row self ''Baseline''"
  proof -
    from that have "axis_span (row self ''Baseline'') (row self ''Axis'') = None"
      by (cases "row self ''Baseline''") (auto simp: axis_span_cases)
    with sc show ?thesis by (simp add: auto_scale_spec)
  qed
  have unplaced: "axis_auto_used m \<and> height_Axis_px m = Some 1"
    if "row self ''Baseline'' = None"
  proof -
    from that have "axis_span (row self ''Baseline'') (row self ''Axis'') = None"
      by (simp add: axis_span_cases)
    with sc have "axis_auto_used m \<and> height_Axis_px m = Some (spec_divisor self)"
      by (simp add: auto_scale_spec)
    moreover from that have "spec_divisor self = 1"
      by (simp add: spec_divisor_def spec_height_def List.map_filter_def)
    ultimately show ?thesis by simp
  qed
  from not_auto auto unplaced show ?thesis by blast
qed

text \<open>
  On every such state, the twelve directional metrics are given by the two formulas
  and are defined if and only if both heights are defined and the divisor height is
  not zero.
\<close>

lemma returned_percentages:
  assumes "compute_metrics self = Inr m"
  shows "pct_as_claimed (spec_height self ''A'') (spec_height self ''B'') (A_as_pct_of_B m) \<and>
         delta_as_claimed (spec_height self ''A'') (spec_height self ''B'') (delta_A_vs_B_pct m) \<and>
         pct_as_claimed (spec_height self ''B'') (spec_height self ''A'') (B_as_pct_of_A m) \<and>
         delta_as_claimed (spec_height self ''B'') (spec_height self ''A'') (delta_B_vs_A_pct m) \<and>
         pct_as_claimed (spec_height self ''A'') (spec_height self ''Control'')
           (A_as_pct_of_Control m) \<and>
         delta_as_claimed (spec_height self ''A'') (spec_height self ''Control'')
           (delta_A_vs_Control_pct m) \<and>
         pct_as_claimed (spec_height self ''Control'') (spec_height self ''A'')
           (Control_as_pct_of_A m) \<and>
         delta_as_claimed (spec_height self ''Control'') (spec_height self ''A'')
           (delta_Control_vs_A_pct m) \<and>
         pct_as_claimed (spec_height self ''B'') (spec_height self ''Control'')
           (B_as_pct_of_Control m) \<and>
         delta_as_claimed (spec_height self ''B'') (spec_height self ''Control'')
           (delta_B_vs_Control_pct m) \<and>
         pct_as_claimed (spec_height self ''Control'') (spec_height self ''B'')
           (Control_as_pct_of_B m) \<and>
         delta_as_claimed (spec_height self ''Control'') (spec_height self ''B'')
           (delta_Control_vs_B_pct m)"
  by (simp add: compute_metrics_pcts[OF assms] pct_claimed delta_claimed)

section \<open>The claims\<close>

text \<open>
  C1. Claimed: the scale divisor of the calibrated percentages is never zero, and a
  division by zero at any step of \<open>compute_metrics\<close> yields \<open>None\<close> for that
  metric, never an exception. The code does otherwise when Baseline and A are clicked
  in the same row and nothing else is placed: the auto-scale block chooses the largest
  absolute height, which is zero, the click that places A leaves \<open>on_canvas_click\<close>
  with \<open>ZeroDivisionError\<close>, and so does every later call of \<open>compute_metrics\<close>
  on that registry.
\<close>

theorem auto_scale_zero_divisor_raises:
  "point_xy app_level ''Baseline'' = Some (10, 100) \<and>
   point_xy app_level ''A'' = Some (50, 100) \<and>
   auto_scale (axis_span (Some 100) None) (point_height (Some 100) (Some (50, 100))) None None
     = (Some 0, True) \<and>
   snd (click (fst (click app_init ''Baseline'' 10 100)) ''A'' 50 100) = Some ZeroDivisionError \<and>
   compute_metrics app_level = Inl ZeroDivisionError"
  by (simp add: app_level_def click_defs point_xy_def run_defs)

text \<open>
  C2. Claimed: for every placement of points, \<open>compute_metrics\<close> returns a defined
  height for each of Control, A and B if and only if both Baseline and that point are
  placed, equal to the row of Baseline minus the row of the point. The code does
  otherwise with Baseline and A clicked in the same row and nothing else placed: both
  are placed, the height that the method computes for A is 0, and the method raises
  \<open>ZeroDivisionError\<close> instead of returning it. (On the states on which it returns,
  the heights are as claimed: \<open>returned_heights\<close>.)
\<close>

theorem height_not_returned_in_baseline_row:
  "row app_level ''Baseline'' = Some 100 \<and>
   row app_level ''A'' = Some 100 \<and>
   point_height (row app_level ''Baseline'') (point_xy app_level ''A'') = Some 0 \<and>
   compute_metrics app_level = Inl ZeroDivisionError"
  by (simp add: app_level_def click_defs row_def point_xy_def run_defs)

text \<open>
  C3. Claimed: for every registry state, if Axis is unplaced or in the row of
  Baseline, the result of \<open>compute_metrics\<close> has the auto flag set and, as divisor, the
  largest absolute defined height among Control, A and B. The code does otherwise
  with Baseline, Axis and Control clicked in the same row: the span is zero, the
  largest absolute defined height is zero, and the method raises
  \<open>ZeroDivisionError\<close> instead of returning flag and divisor. (On the states on which
  it returns, flag and divisor are as claimed: \<open>returned_divisor\<close>.)
\<close>

theorem divisor_not_returned_in_baseline_row:
  "row app_axis_level ''Baseline'' = Some 100 \<and>
   row app_axis_level ''Axis'' = Some 100 \<and>
   row app_axis_level ''Control'' = Some 100 \<and>
   spec_divisor app_axis_level = 0 \<and>
   compute_metrics app_axis_level = Inl ZeroDivisionError"
  by (simp add: app_axis_level_def click_defs row_def point_xy_def run_defs
        spec_divisor_def spec_height_def)

text \<open>
  C4. Claimed: for each ordered pair of distinct points among A, B and Control,
  \<open>compute_metrics\<close> returns the two directional percentages, undefined when the
  divisor height is zero, and never raises. The code does otherwise with Baseline, A
  and B clicked in the same row: both heights are 0, the helper \<open>pct\<close> gives
  \<open>None\<close> for the pair, and the method raises \<open>ZeroDivisionError\<close> instead of
  returning any percentage. (On the states on which it returns, the twelve values are
  as claimed: \<open>returned_percentages\<close>.)
\<close>

theorem percentages_not_returned_in_baseline_row:
  "spec_height app_flat ''A'' = Some 0 \<and>
   spec_height app_flat ''B'' = Some 0 \<and>
   pct (spec_height app_flat ''A'') (spec_height app_flat ''B'') = None \<and>
   compute_metrics app_flat = Inl ZeroDivisionError"
  by (simp add: app_flat_def click_defs row_def point_xy_def run_defs spec_height_def)

text \<open>
  C5. Claimed: for defined heights with a nonzero divisor height,
  \<open>delta_X_vs_Y_pct\<close> is positive if and only if X is the higher point. The overlay
  that the code draws says the same ("positive means A is higher than B"). The code
  does otherwise below Baseline: with Baseline in row 100, A in row 150 and B in row
  200 the heights are -50 and -100, A is the higher of the two, and
  \<open>delta_A_vs_B_pct\<close> is -50.
\<close>

theorem delta_negative_for_higher_point_below_baseline:
  "point_xy app_below ''Baseline'' = Some (0, 100) \<and>
   point_xy app_below ''A'' = Some (10, 150) \<and>
   point_xy app_below ''B'' = Some (20, 200) \<and>
   map_sum id (\<lambda>m. (height_A_px m, height_B_px m, delta_A_vs_B_pct m)) (compute_metrics app_below)
     = Inr (Some (- 50), Some (- 100), Some (- 50))"
  by (simp add: app_below_def click_defs point_xy_def run_defs)

text \<open>
  C6. Claimed: for two defined nonzero heights, swapping X and Y gives values that
  multiply to \<open>100 * 100\<close> and are not equal. The product is as claimed; the values are
  equal when the two heights have the same absolute value, as for A and B in one row.
\<close>

theorem swapped_percentages_equal_in_one_row:
  "map_sum id (\<lambda>m. (A_as_pct_of_B m, B_as_pct_of_A m)) (compute_metrics app_equal)
     = Inr (Some 100, Some 100)"
  by (simp add: app_equal_def run_defs)

text \<open>
  C6, amended. Whenever \<open>compute_metrics\<close> returns, for each pair of points among A,
  B and Control with defined nonzero heights, \<open>X_as_pct_of_Y\<close> and \<open>Y_as_pct_of_X\<close>
  are defined, multiply to \<open>100 * 100\<close>, and are equal if and only if the two heights
  have the same absolute value.
\<close>

theorem swapped_percentages_reciprocal:
  assumes "compute_metrics self = Inr m"
  shows "reciprocal_pair (spec_height self ''A'') (spec_height self ''B'')
           (A_as_pct_of_B m) (B_as_pct_of_A m) \<and>
         reciprocal_pair (spec_height self ''A'') (spec_height self ''Control'')
           (A_as_pct_of_Control m) (Control_as_pct_of_A m) \<and>
         reciprocal_pair (spec_height self ''B'') (spec_height self ''Control'')
           (B_as_pct_of_Control m) (Control_as_pct_of_B m)"
  by (simp add: compute_metrics_pcts[OF assms] reciprocal_pct)

theorem swapped_percentages_reciprocal_witness:
  "compute_metrics scenario_axis = Inr (scenario_metrics 50 False 200 400 300) \<and>
   spec_height scenario_axis ''A'' = Some 200 \<and> spec_height scenario_axis ''B'' = Some 150 \<and>
   reciprocal_pair (Some 200) (Some 150) (Some (400 / 3)) (Some 75) \<and>
   (400 / 3) * 75 = (100 * 100 :: real) \<and> (400 / 3 :: real) \<noteq> 75"
proof -
  have hs: "spec_height scenario_axis ''A'' = Some 200" "spec_height scenario_axis ''B'' = Some 150"
    by (simp_all add: spec_height_def row_def point_xy_def scenario_axis_def app_with_def
          init_points_def new_point_def)
  show ?thesis
    using swapped_percentages_reciprocal[OF scenario_axis_run] scenario_axis_run hs
    by (simp add: scenario_metrics_def)
qed

text \<open>
  C7. Claimed: after \<open>clear_marks\<close>, \<open>compute_metrics\<close> returns a result in which
  every height, the axis span and every percentage is \<open>None\<close>, the auto flag is true
  and the divisor is 1. The result has one entry for span and divisor,
  \<open>height_Axis_px\<close>, and it holds 1, not \<open>None\<close>.
\<close>

theorem cleared_axis_span_entry_is_one:
  "map_sum id height_Axis_px (compute_metrics (clear_marks scenario_axis)) = Inr (Some 1)"
  by (simp add: scenario_axis_def clear_marks_def clear_overlay_text_def run_defs)

text \<open>
  C7, amended. After \<open>clear_marks\<close> no point has a coordinate, and
  \<open>compute_metrics\<close> returns a result in which every height and every percentage
  (pairwise and calibrated) is \<open>None\<close>, the auto flag is true, and the entry
  \<open>height_Axis_px\<close> holds the fallback divisor 1.
\<close>

theorem clear_marks_then_compute:
  assumes "registry_ok self"
  shows "(\<forall>k. point_xy (clear_marks self) k = None) \<and>
         compute_metrics (clear_marks self) = Inr (cleared_metrics (axis_value self))"
proof -
  have "point_xy (clear_marks self) k = None" for k
    by (simp add: point_xy_def clear_marks_def clear_overlay_text_def split: option.splits)
  moreover have "compute_metrics (clear_marks self) = Inr (cleared_metrics (axis_value self))"
    using assms
    by (auto simp: registry_ok_def point_names_def clear_marks_def clear_overlay_text_def
          cleared_metrics_def run_defs)
  ultimately show ?thesis by blast
qed

theorem clear_marks_then_compute_witness:
  "registry_ok scenario_axis \<and>
   point_xy scenario_axis ''A'' = Some (20, 300) \<and>
   point_xy (clear_marks scenario_axis) ''A'' = None \<and>
   compute_metrics (clear_marks scenario_axis) = Inr (cleared_metrics 100)"
proof -
  have ok: "registry_ok scenario_axis"
    by (simp add: registry_ok_def point_names_def scenario_axis_def app_with_def init_points_def)
  have a: "point_xy scenario_axis ''A'' = Some (20, 300)" "axis_value scenario_axis = 100"
    by (simp_all add: point_xy_def scenario_axis_def app_with_def app_init_def init_points_def
          new_point_def)
  show ?thesis
    using clear_marks_then_compute[OF ok] ok a by simp
qed

text \<open>
  C8. \<open>compute_metrics\<close> is a function of the registry contents and the calibration
  value alone: two application states that hold the same coordinates under the five
  names and the same calibration value give the same result (or the same exception),
  whatever their canvas items, mode and overlay, which record the call history.
\<close>

theorem compute_metrics_depends_on_registry_only:
  assumes "same_registry s t" and "axis_value s = axis_value t"
  shows "compute_metrics s = compute_metrics t"
  using assms
  by (auto simp: compute_metrics_def same_registry_def point_names_def get_point_def
                 and_then_def split: option.splits)

theorem compute_metrics_depends_on_registry_only_witness:
  "same_registry scenario_axis (fst (click scenario_axis ''A'' 20 300)) \<and>
   axis_value scenario_axis = axis_value (fst (click scenario_axis ''A'' 20 300)) \<and>
   canvas_next scenario_axis = 1 \<and> canvas_next (fst (click scenario_axis ''A'' 20 300)) = 6 \<and>
   compute_metrics scenario_axis = compute_metrics (fst (click scenario_axis ''A'' 20 300))"
proof -
  have t: "fst (click scenario_axis ''A'' 20 300) =
     scenario_axis\<lparr>points := (points scenario_axis)(''A'' \<mapsto>
         \<lparr>name = ''A'', xy = Some (20, 300), line_id = Some 1, dot_id = Some 2,
          label_id = Some 3\<rparr>),
       overlay_items := [5, 4], canvas_next := 6\<rparr>"
    by (simp add: scenario_axis_def click_defs run_defs)
  have same: "same_registry scenario_axis (fst (click scenario_axis ''A'' 20 300))"
    unfolding t
    by (simp add: same_registry_def point_names_def scenario_axis_def app_with_def
          init_points_def new_point_def)
  have av: "axis_value scenario_axis = axis_value (fst (click scenario_axis ''A'' 20 300))"
    unfolding t by simp
  have n: "canvas_next scenario_axis = 1" "canvas_next (fst (click scenario_axis ''A'' 20 300)) = 6"
    unfolding t by (simp_all add: scenario_axis_def app_with_def app_init_def)
  show ?thesis
    using compute_metrics_depends_on_registry_only[OF same av] same av n by simp
qed

text \<open>
  C9. Claimed: setting a point under a name outside the five fails with
  \<open>InvalidNameError\<close> and leaves the registry unchanged. The code has no such error:
  a click in any other mode, such as the mode \<open>ROI\<close> of the crop tool, returns
  normally.
\<close>

theorem click_in_other_mode_no_error:
  "on_canvas_click (set_mode app_init (Some ''ROI'')) 10 20
     = (set_mode app_init (Some ''ROI''), None)"
  by (simp add: click_defs)

text \<open>
  C9, amended. A click while the mode is a name outside the five is ignored: the
  method returns normally and the whole state, the registry included, is unchanged.
  A click while the mode is one of the five names, with an image loaded, records the
  clamped image coordinate of the click for that point and leaves every other point
  of the registry as it was.
\<close>

theorem click_sets_only_named_point:
  "(\<forall>nm. current_mode self = Some nm \<and> nm \<notin> set point_names \<longrightarrow>
      on_canvas_click self ex ey = (self, None)) \<and>
   (\<forall>nm. current_mode self = Some nm \<and> nm \<in> set point_names \<and> image self \<noteq> None \<and>
         points self nm \<noteq> None \<longrightarrow>
      point_xy (fst (on_canvas_click self ex ey)) nm = Some (canvas_to_image_xy self ex ey) \<and>
      (\<forall>k. k \<noteq> nm \<longrightarrow> points (fst (on_canvas_click self ex ey)) k = points self k))"
  by (auto simp: on_canvas_click_def get_point_def draw_point_def and_then_def
        update_metrics_overlay_def clear_overlay_text_def point_xy_def Let_def
        split: sum.splits option.splits)

theorem click_sets_only_named_point_witness:
  "current_mode (set_mode scenario_auto (Some ''Origin'')) = Some ''Origin'' \<and>
   ''Origin'' \<notin> set point_names \<and>
   on_canvas_click (set_mode scenario_auto (Some ''Origin'')) 40 250
     = (set_mode scenario_auto (Some ''Origin''), None) \<and>
   current_mode (set_mode scenario_auto (Some ''B'')) = Some ''B'' \<and>
   ''B'' \<in> set point_names \<and>
   canvas_to_image_xy (set_mode scenario_auto (Some ''B'')) 40 900 = (40, 599) \<and>
   point_xy (fst (on_canvas_click (set_mode scenario_auto (Some ''B'')) 40 900)) ''B''
     = Some (40, 599) \<and>
   points (fst (on_canvas_click (set_mode scenario_auto (Some ''B'')) 40 900)) ''A''
     = points (set_mode scenario_auto (Some ''B'')) ''A''"
proof -
  have m1: "current_mode (set_mode scenario_auto (Some ''Origin'')) = Some ''Origin''"
    "''Origin'' \<notin> set point_names"
    by (simp_all add: set_mode_def point_names_def)
  have m2: "current_mode (set_mode scenario_auto (Some ''B'')) = Some ''B''"
    "''B'' \<in> set point_names"
    "image (set_mode scenario_auto (Some ''B'')) \<noteq> None"
    "points (set_mode scenario_auto (Some ''B'')) ''B'' \<noteq> None"
    by (simp_all add: set_mode_def point_names_def scenario_auto_def app_with_def app_init_def
          init_points_def)
  have c: "canvas_to_image_xy (set_mode scenario_auto (Some ''B'')) 40 900 = (40, 599)"
    by (simp add: canvas_to_image_xy_def py_int_def set_mode_def scenario_auto_def app_with_def
          app_init_def)
  have neq: "''A'' \<noteq> ''B''" by simp
  show ?thesis
    using click_sets_only_named_point[of "set_mode scenario_auto (Some ''Origin'')" 40 250]
      click_sets_only_named_point[of "set_mode scenario_auto (Some ''B'')" 40 900] m1 m2 c neq
    by (metis (no_types, lifting))
qed

text \<open>
  C10. Whenever \<open>compute_metrics\<close> returns, the entry \<open>height_Axis_px\<close> of the result
  is a float and not \<open>None\<close>, also when Baseline or Axis is unplaced.
\<close>

theorem axis_span_entry_defined:
  assumes "compute_metrics self = Inr m"
  shows "\<exists>d. height_Axis_px m = Some d"
  using metrics_of_fields(4)[OF compute_metrics_Inr[OF assms]] auto_scale_defined
  by simp

theorem axis_span_entry_defined_witness:
  "point_xy app_only_A ''Baseline'' = None \<and> point_xy app_only_A ''Axis'' = None \<and>
   compute_metrics app_only_A = Inr (cleared_metrics 100) \<and>
   (\<exists>d. height_Axis_px (cleared_metrics 100) = Some d)"
proof -
  have run: "compute_metrics app_only_A = Inr (cleared_metrics 100)"
    by (simp add: app_only_A_def cleared_metrics_def run_defs)
  have un: "point_xy app_only_A ''Baseline'' = None" "point_xy app_only_A ''Axis'' = None"
    by (simp_all add: point_xy_def app_only_A_def app_with_def init_points_def new_point_def)
  show ?thesis
    using axis_span_entry_defined[OF run] run un by simp
qed

end
